theory Spec2Isabelle
  imports Main
begin

section \<open>Python values used by database.py\<close>

text \<open>
  The module is written for Python 2 (gdata, MySQLdb, PyQt's QString). Two points of the
  language differ between Python 2 and Python 3 and are visible in this file: whether a
  string has an \<^verbatim>\<open>__iter__\<close> attribute, and whether \<^verbatim>\<open>file\<close> is a builtin name.
  Both are kept as a parameter, so that results hold for either interpreter.
\<close>

datatype pyver = Py2 | Py3

datatype pytype =
  TNoneType | TBool | TInt | TStr | TDate | TTuple | TList | TSet | TType | TFile

text \<open>Scalar field values of a Row: None, booleans, integers, strings, calendar dates.\<close>

datatype scalar =
  SNone | SBool bool | SInt int | SStr string | SDate int int int

text \<open>
  Arbitrary arguments: scalars, tuples, lists, sets (elements in some order) and type
  objects such as \<^verbatim>\<open>str\<close> or Python 2's builtin \<^verbatim>\<open>file\<close>.
\<close>

datatype pyval =
  Scalar scalar
| PTuple "pyval list"
| PList "pyval list"
| PSet "pyval list"
| TypeObj pytype

datatype db_message =
  UnableToExecute string
    \<comment> \<open>"MySQL Error: Unable to execute statement '{}'"\<close>
| UnableToAddRow "scalar list" string
    \<comment> \<open>"MySQL Error: Unable to add row ({row}) to table ({table})"\<close>

datatype pyexc =
  AssertionError
| TypeError
| IndexError
| ValueError
| AttributeError
| IOError
| NameError string
| UnboundLocalError string
| DriverError
| DatabaseError db_message
| OutsideModel
    \<comment> \<open>the text of \<^verbatim>\<open>str\<close> applied to a container or a type object is not modelled\<close>

abbreviation TAB :: char where "TAB \<equiv> CHR 0x09"
abbreviation NL :: char where "NL \<equiv> CHR 0x0A"
abbreviation CR :: char where "CR \<equiv> CHR 0x0D"
abbreviation DQUOTE :: char where "DQUOTE \<equiv> CHR 0x22"
abbreviation BSLASH :: char where "BSLASH \<equiv> CHR 0x5C"

abbreviation PStr :: "string \<Rightarrow> pyval" where "PStr s \<equiv> Scalar (SStr s)"
abbreviation PInt :: "int \<Rightarrow> pyval" where "PInt i \<equiv> Scalar (SInt i)"
abbreviation PNone :: pyval where "PNone \<equiv> Scalar SNone"

fun scalar_type :: "scalar \<Rightarrow> pytype" where
  "scalar_type SNone = TNoneType"
| "scalar_type (SBool b) = TBool"
| "scalar_type (SInt i) = TInt"
| "scalar_type (SStr s) = TStr"
| "scalar_type (SDate y m d) = TDate"

fun py_type :: "pyval \<Rightarrow> pytype" where
  "py_type (Scalar f) = scalar_type f"
| "py_type (PTuple xs) = TTuple"
| "py_type (PList xs) = TList"
| "py_type (PSet xs) = TSet"
| "py_type (TypeObj t) = TType"

text \<open>Truth value of an object, as \<^verbatim>\<open>not item\<close> and \<^verbatim>\<open>if x:\<close> test it.\<close>

fun scalar_truthy :: "scalar \<Rightarrow> bool" where
  "scalar_truthy SNone = False"
| "scalar_truthy (SBool b) = b"
| "scalar_truthy (SInt i) = (i \<noteq> 0)"
| "scalar_truthy (SStr s) = (s \<noteq> [])"
| "scalar_truthy (SDate y m d) = True"

fun py_truthy :: "pyval \<Rightarrow> bool" where
  "py_truthy (Scalar f) = scalar_truthy f"
| "py_truthy (PTuple xs) = (xs \<noteq> [])"
| "py_truthy (PList xs) = (xs \<noteq> [])"
| "py_truthy (PSet xs) = (xs \<noteq> [])"
| "py_truthy (TypeObj t) = True"

text \<open>\<^verbatim>\<open>x == t\<close> for a type object \<open>t\<close>: only that type object itself is equal to it.\<close>

definition py_eq_type :: "pyval \<Rightarrow> pytype \<Rightarrow> bool" where
  "py_eq_type x t = (x = TypeObj t)"

text \<open>
  \<^verbatim>\<open>hasattr(x, "__iter__")\<close>. Instances of tuple, list, set and file have the attribute;
  None, booleans, integers and dates do not; a string has it in Python 3 only. On a type
  object the lookup finds the attribute its instances have.
\<close>

fun type_has_iter :: "pyver \<Rightarrow> pytype \<Rightarrow> bool" where
  "type_has_iter v TStr = (v = Py3)"
| "type_has_iter v TTuple = True"
| "type_has_iter v TList = True"
| "type_has_iter v TSet = True"
| "type_has_iter v TFile = True"
| "type_has_iter v TNoneType = False"
| "type_has_iter v TBool = False"
| "type_has_iter v TInt = False"
| "type_has_iter v TDate = False"
| "type_has_iter v TType = False"

fun hasattr_iter :: "pyver \<Rightarrow> pyval \<Rightarrow> bool" where
  "hasattr_iter v (TypeObj t) = type_has_iter v t"
| "hasattr_iter v x = type_has_iter v (py_type x)"

text \<open>\<^verbatim>\<open>data[0]\<close>.\<close>

fun getitem0 :: "pyval \<Rightarrow> pyexc + pyval" where
  "getitem0 (Scalar (SStr s)) = (case s of [] \<Rightarrow> Inl IndexError | c # cs \<Rightarrow> Inr (PStr [c]))"
| "getitem0 (PTuple xs) = (case xs of [] \<Rightarrow> Inl IndexError | x # ys \<Rightarrow> Inr x)"
| "getitem0 (PList xs) = (case xs of [] \<Rightarrow> Inl IndexError | x # ys \<Rightarrow> Inr x)"
| "getitem0 x = Inl TypeError"

section \<open>String operations\<close>

definition startswith :: "string \<Rightarrow> string \<Rightarrow> bool" where
  "startswith s p = (take (length p) s = p)"

definition endswith :: "string \<Rightarrow> string \<Rightarrow> bool" where
  "endswith s p = (length p \<le> length s \<and> drop (length s - length p) s = p)"

text \<open>\<^verbatim>\<open>s.strip(chars)\<close> removes the characters of \<open>chars\<close> from both ends of \<open>s\<close>.\<close>

definition py_strip :: "string \<Rightarrow> string \<Rightarrow> string" where
  "py_strip chars s =
     rev (dropWhile (\<lambda>c. c \<in> set chars) (rev (dropWhile (\<lambda>c. c \<in> set chars) s)))"

text \<open>
  \<^verbatim>\<open>s.split(sep)\<close> for a non-empty \<open>sep\<close>: scan from the left, cut at every occurrence of
  \<open>sep\<close> and go on behind it. An empty \<open>sep\<close> raises ValueError.
\<close>

fun split_from :: "string \<Rightarrow> string \<Rightarrow> string \<Rightarrow> string list" where
  "split_from sep cur [] = [cur]"
| "split_from sep cur (c # cs) =
     (if startswith (c # cs) sep then cur # split_from sep [] (drop (length sep - 1) cs)
      else split_from sep (cur @ [c]) cs)"

definition py_split :: "string \<Rightarrow> string \<Rightarrow> pyexc + string list" where
  "py_split s sep = (if sep = [] then Inl ValueError else Inr (split_from sep [] s))"

text \<open>\<^verbatim>\<open>sep.join(xs)\<close>.\<close>

fun py_join :: "string \<Rightarrow> string list \<Rightarrow> string" where
  "py_join sep [] = []"
| "py_join sep [x] = x"
| "py_join sep (x # y # ys) = x @ sep @ py_join sep (y # ys)"

text \<open>
  \<^verbatim>\<open>s.replace(old, new)\<close>: every occurrence of \<open>old\<close>, found from the left without
  overlap, becomes \<open>new\<close>. With an empty \<open>old\<close> Python puts \<open>new\<close> before every character
  and at the end.
\<close>

fun replace_from :: "string \<Rightarrow> string \<Rightarrow> string \<Rightarrow> string" where
  "replace_from old new [] = []"
| "replace_from old new (c # cs) =
     (if startswith (c # cs) old then new @ replace_from old new (drop (length old - 1) cs)
      else c # replace_from old new cs)"

definition py_replace :: "string \<Rightarrow> string \<Rightarrow> string \<Rightarrow> string" where
  "py_replace s old new =
     (if old = [] then new @ concat (map (\<lambda>c. c # new) s) else replace_from old new s)"

text \<open>\<^verbatim>\<open>s.count(sub)\<close> for a non-empty \<open>sub\<close>: occurrences from the left without overlap.\<close>

fun count_from :: "string \<Rightarrow> string \<Rightarrow> nat" where
  "count_from sub [] = 0"
| "count_from sub (c # cs) =
     (if startswith (c # cs) sub then Suc (count_from sub (drop (length sub - 1) cs))
      else count_from sub cs)"

text \<open>Decimal text of an integer, as \<^verbatim>\<open>str\<close> and \<^verbatim>\<open>'{}'.format\<close> give it.\<close>

definition digit_char :: "nat \<Rightarrow> char" where
  "digit_char n = ''0123456789'' ! (n mod 10)"

fun digits :: "nat \<Rightarrow> string" where
  "digits n = (if n < 10 then [digit_char n] else digits (n div 10) @ [digit_char n])"

declare digits.simps [simp del]

definition str_int :: "int \<Rightarrow> string" where
  "str_int i = (if i < 0 then CHR ''-'' # digits (nat (- i)) else digits (nat i))"

text \<open>Left padding with zeros to a width, as \<^verbatim>\<open>'%04d'\<close> does for a date's fields.\<close>

definition zero_pad :: "nat \<Rightarrow> string \<Rightarrow> string" where
  "zero_pad w s = replicate (w - length s) (CHR ''0'') @ s"

text \<open>\<^verbatim>\<open>str(x)\<close> of a scalar; a date prints as YYYY-MM-DD.\<close>

fun str_scalar :: "scalar \<Rightarrow> string" where
  "str_scalar SNone = ''None''"
| "str_scalar (SBool b) = (if b then ''True'' else ''False'')"
| "str_scalar (SInt i) = str_int i"
| "str_scalar (SStr s) = s"
| "str_scalar (SDate y m d) =
     zero_pad 4 (str_int y) @ ''-'' @ zero_pad 2 (str_int m) @ ''-'' @ zero_pad 2 (str_int d)"

text \<open>\<^verbatim>\<open>s.lower()\<close> on ASCII text.\<close>

definition lower_char :: "char \<Rightarrow> char" where
  "lower_char c =
     (case map_of (zip ''ABCDEFGHIJKLMNOPQRSTUVWXYZ'' ''abcdefghijklmnopqrstuvwxyz'') c of
        None \<Rightarrow> c | Some d \<Rightarrow> d)"

definition py_lower :: "string \<Rightarrow> string" where
  "py_lower s = map lower_char s"

section \<open>TextInterface\<close>

text \<open>
  The file system maps a path to the text a file holds, as a file object opened in text
  mode delivers it. Opening a missing file for reading raises IOError. Opening for
  writing creates the file or empties it, or raises IOError and creates nothing when
  the path cannot be opened: the name is empty, its directory is missing, or access is
  denied. Which paths open for writing is up to the environment and is a parameter,
  \<open>writable\<close>. \<^verbatim>\<open>open\<close> is given the adapter's \<open>file\<close> attribute, and raises TypeError
  when that is not a string.
\<close>

type_synonym filesystem = "string \<Rightarrow> string option"

record TextInterface =
  file_attr :: pyval

text \<open>\<^verbatim>\<open>for line in infile\<close>: the text cut behind every newline, which stays on its line.\<close>

fun lines_from :: "string \<Rightarrow> string \<Rightarrow> string list" where
  "lines_from cur [] = (if cur = [] then [] else [cur])"
| "lines_from cur (c # cs) =
     (if c = NL then (cur @ [c]) # lines_from [] cs else lines_from (cur @ [c]) cs)"

definition file_lines :: "string \<Rightarrow> string list" where
  "file_lines text = lines_from [] text"

text \<open>The suffix test that \<open>read\<close> and \<open>write\<close> both make before using the separator.\<close>

definition suffix_separator :: "string \<Rightarrow> string \<Rightarrow> string" where
  "suffix_separator name seperator =
     (if endswith name ''.csv'' then '',''
      else if endswith name ''.tsv'' then [TAB]
      else seperator)"

text \<open>\<^verbatim>\<open>tuple(line.strip("\r\n\t").split(seperator))\<close> for each line, stopping at the first error.\<close>

fun read_lines :: "string \<Rightarrow> string list \<Rightarrow> pyexc + pyval list" where
  "read_lines seperator [] = Inr []"
| "read_lines seperator (line # rest) =
     (case py_split (py_strip [CR, NL, TAB] line) seperator of
        Inl e \<Rightarrow> Inl e
      | Inr parts \<Rightarrow>
          (case read_lines seperator rest of
             Inl e \<Rightarrow> Inl e
           | Inr rows \<Rightarrow> Inr (PTuple (map PStr parts) # rows)))"

text \<open>\<open>TextInterface.read\<close>.\<close>

definition read_text :: "TextInterface \<Rightarrow> filesystem \<Rightarrow> string \<Rightarrow> pyexc + pyval" where
  "read_text self fs seperator =
     (case file_attr self of
        Scalar (SStr name) \<Rightarrow>
          (case fs name of
             None \<Rightarrow> Inl IOError
           | Some text \<Rightarrow>
               (case read_lines (suffix_separator name seperator) (file_lines text) of
                  Inl e \<Rightarrow> Inl e
                | Inr rows \<Rightarrow> Inr (PList rows)))
      | _ \<Rightarrow> Inl TypeError)"

text \<open>\<^verbatim>\<open>outfile.write(data)\<close> takes a string and nothing else.\<close>

fun file_write_arg :: "pyval \<Rightarrow> pyexc + string" where
  "file_write_arg (Scalar (SStr s)) = Inr s"
| "file_write_arg x = Inl TypeError"

text \<open>\<^verbatim>\<open>str(i)\<close> of an item: the text of a scalar; that of a container is not modelled.\<close>

fun str_item :: "pyval \<Rightarrow> pyexc + string" where
  "str_item (Scalar f) = Inr (str_scalar f)"
| "str_item x = Inl OutsideModel"

text \<open>Results gathered in order, up to the first error.\<close>

fun collect :: "(pyexc + 'a) list \<Rightarrow> pyexc + 'a list" where
  "collect [] = Inr []"
| "collect (r # rs) =
     (case r of
        Inl e \<Rightarrow> Inl e
      | Inr x \<Rightarrow> (case collect rs of Inl e \<Rightarrow> Inl e | Inr xs \<Rightarrow> Inr (x # xs)))"

text \<open>
  The items a \<^verbatim>\<open>for\<close> visits: the elements of a tuple, list or set, the characters of a
  string; anything else is not iterable.
\<close>

fun iter_items :: "pyval \<Rightarrow> pyexc + pyval list" where
  "iter_items (PTuple xs) = Inr xs"
| "iter_items (PList xs) = Inr xs"
| "iter_items (PSet xs) = Inr xs"
| "iter_items (Scalar (SStr s)) = Inr (map (\<lambda>c. PStr [c]) s)"
| "iter_items x = Inl TypeError"

text \<open>\<^verbatim>\<open>seperator.join( str(i) for i in entry )\<close>.\<close>

definition join_entry :: "string \<Rightarrow> pyval \<Rightarrow> pyexc + string" where
  "join_entry seperator entry =
     (case iter_items entry of
        Inl e \<Rightarrow> Inl e
      | Inr items \<Rightarrow>
          (case collect (map str_item items) of
             Inl e \<Rightarrow> Inl e
           | Inr texts \<Rightarrow> Inr (py_join seperator texts)))"

text \<open>\<^verbatim>\<open>"\n".join( seperator.join( str(i) for i in entry ) for entry in data )\<close>.\<close>

definition join_rows :: "string \<Rightarrow> pyval \<Rightarrow> pyexc + string" where
  "join_rows seperator data =
     (case iter_items data of
        Inl e \<Rightarrow> Inl e
      | Inr entries \<Rightarrow>
          (case collect (map (join_entry seperator) entries) of
             Inl e \<Rightarrow> Inl e
           | Inr texts \<Rightarrow> Inr (py_join [NL] texts)))"

text \<open>\<^verbatim>\<open>open(name, 'w')\<close> succeeds: the name is not empty and the environment lets it open.\<close>

definition opens_for_writing :: "(string \<Rightarrow> bool) \<Rightarrow> string \<Rightarrow> bool" where
  "opens_for_writing writable name = (name \<noteq> [] \<and> writable name)"

text \<open>
  \<open>TextInterface.write\<close>. The assertion comes before the file is opened, and a failing
  \<^verbatim>\<open>open\<close> leaves the file system as it was. The test of the branch is
  \<^verbatim>\<open>type(data[0] == str)\<close>: the type of the result of a comparison, which is a type object.
\<close>

definition write_text ::
  "pyver \<Rightarrow> TextInterface \<Rightarrow> (string \<Rightarrow> bool) \<Rightarrow> filesystem \<Rightarrow> pyval \<Rightarrow> string
     \<Rightarrow> (pyexc + unit) \<times> filesystem" where
  "write_text v self writable fs data seperator =
     (if \<not> hasattr_iter v data then (Inl AssertionError, fs)
      else
        (case file_attr self of
           Scalar (SStr name) \<Rightarrow>
             (if opens_for_writing writable name
              then
                (let fs' = fs(name \<mapsto> []);
                     sep = suffix_separator name seperator
                 in case getitem0 data of
                      Inl e \<Rightarrow> (Inl e, fs')
                    | Inr d0 \<Rightarrow>
                        (if py_truthy (TypeObj (py_type (Scalar (SBool (py_eq_type d0 TStr)))))
                         then (case file_write_arg data of
                                 Inl e \<Rightarrow> (Inl e, fs')
                               | Inr text \<Rightarrow> (Inr (), fs'(name \<mapsto> text)))
                         else (case join_rows sep data of
                                 Inl e \<Rightarrow> (Inl e, fs')
                               | Inr text \<Rightarrow> (Inr (), fs'(name \<mapsto> text)))))
              else (Inl IOError, fs))
         | _ \<Rightarrow> (Inl TypeError, fs)))"

section \<open>MySQLDatabaseInterface\<close>

text \<open>
  The connection and its cursor, as far as the adapter drives them. \<open>issued\<close> holds every
  statement handed to \<^verbatim>\<open>cursor.execute\<close>, \<open>pending\<close> the statements executed since
  the last commit, \<open>committed\<close> the statements a commit has made permanent, and
  \<open>commit_calls\<close> counts the calls of \<^verbatim>\<open>db.commit\<close>.
\<close>

record connection =
  issued :: "string list"
  pending :: "string list"
  committed :: "string list"
  commit_calls :: nat

text \<open>
  The MySQLdb driver is outside the module: whether it accepts a statement or a commit in
  a given state of the connection, and the rows \<^verbatim>\<open>fetchall\<close> delivers, are parameters.
\<close>

record driver =
  exec_ok :: "connection \<Rightarrow> string \<Rightarrow> bool"
  commit_ok :: "connection \<Rightarrow> bool"
  result_rows :: "connection \<Rightarrow> string \<Rightarrow> pyval"

definition cursor_execute ::
  "driver \<Rightarrow> connection \<Rightarrow> string \<Rightarrow> (pyexc + unit) \<times> connection" where
  "cursor_execute drv c statement =
     (if exec_ok drv c statement
      then (Inr (), c\<lparr>issued := issued c @ [statement], pending := pending c @ [statement]\<rparr>)
      else (Inl DriverError, c\<lparr>issued := issued c @ [statement]\<rparr>))"

definition db_commit :: "driver \<Rightarrow> connection \<Rightarrow> (pyexc + unit) \<times> connection" where
  "db_commit drv c =
     (if commit_ok drv c
      then (Inr (), c\<lparr>pending := [], committed := committed c @ pending c,
                       commit_calls := Suc (commit_calls c)\<rparr>)
      else (Inl DriverError, c\<lparr>commit_calls := Suc (commit_calls c)\<rparr>))"

text \<open>
  \<open>execute\<close> and \<open>read\<close> of the relational adapter. An exception of the cursor becomes a
  DatabaseError carrying the statement; the commit of \<open>execute\<close> is outside its
  \<^verbatim>\<open>try\<close>, and \<open>read\<close> has none.
\<close>

definition execute ::
  "driver \<Rightarrow> connection \<Rightarrow> string \<Rightarrow> (pyexc + unit) \<times> connection" where
  "execute drv c statement =
     (case cursor_execute drv c statement of
        (Inl e, c') \<Rightarrow> (Inl (DatabaseError (UnableToExecute statement)), c')
      | (Inr u, c') \<Rightarrow> db_commit drv c')"

definition read_sql ::
  "driver \<Rightarrow> connection \<Rightarrow> string \<Rightarrow> (pyexc + pyval) \<times> connection" where
  "read_sql drv c statement =
     (case cursor_execute drv c statement of
        (Inl e, c') \<Rightarrow> (Inl (DatabaseError (UnableToExecute statement)), c')
      | (Inr u, c') \<Rightarrow> (Inr (result_rows drv c' statement), c'))"

text \<open>The connection after \<open>statements\<close> have been executed with success, one after the other.\<close>

definition executed :: "connection \<Rightarrow> string list \<Rightarrow> connection" where
  "executed c statements =
     c\<lparr>issued := issued c @ statements, pending := pending c @ statements\<rparr>"

text \<open>
  \<^verbatim>\<open>'"{}"'.format( str(item).replace('"', '""').replace( "\\", "\\\\") )\<close> for a string
  or a false item, \<^verbatim>\<open>'{}'.format( item )\<close> for any other.
\<close>

definition quoted :: "string \<Rightarrow> string" where
  "quoted s =
     [DQUOTE] @ py_replace (py_replace s [DQUOTE] [DQUOTE, DQUOTE]) [BSLASH] [BSLASH, BSLASH]
       @ [DQUOTE]"

definition build_item :: "scalar \<Rightarrow> string" where
  "build_item item =
     (if scalar_type item = TStr \<or> \<not> scalar_truthy item then quoted (str_scalar item)
      else str_scalar item)"

definition build_insert :: "scalar list \<Rightarrow> string" where
  "build_insert row = py_join '','' (map build_item row)"

definition insert_statement :: "string \<Rightarrow> scalar list \<Rightarrow> string" where
  "insert_statement table row =
     ''INSERT INTO '' @ table @ '' VALUES ( '' @ build_insert row @ '' )''"

text \<open>
  The loop of \<open>insert\<close>: one \<^verbatim>\<open>cursor.execute\<close> per row, left at the first row the
  driver refuses; that row is what the handler finds in \<open>row\<close>.
\<close>

fun insert_rows ::
  "driver \<Rightarrow> string \<Rightarrow> connection \<Rightarrow> scalar list list
     \<Rightarrow> (scalar list + unit) \<times> connection" where
  "insert_rows drv table c [] = (Inr (), c)"
| "insert_rows drv table c (row # rows) =
     (case cursor_execute drv c (insert_statement table row) of
        (Inl e, c') \<Rightarrow> (Inl row, c')
      | (Inr u, c') \<Rightarrow> insert_rows drv table c' rows)"

text \<open>
  \<open>insert\<close>: the commit follows the loop, inside the same \<^verbatim>\<open>try\<close>. When the commit
  fails the handler names the last row, and with no rows at all \<open>row\<close> was never bound.
\<close>

definition insert_sql ::
  "driver \<Rightarrow> connection \<Rightarrow> string \<Rightarrow> scalar list list
     \<Rightarrow> (pyexc + unit) \<times> connection" where
  "insert_sql drv c table data =
     (case insert_rows drv table c data of
        (Inl row, c') \<Rightarrow> (Inl (DatabaseError (UnableToAddRow row table)), c')
      | (Inr u, c') \<Rightarrow>
          (case db_commit drv c' of
             (Inr u', c'') \<Rightarrow> (Inr (), c'')
           | (Inl e, c'') \<Rightarrow>
               (if data = [] then (Inl (UnboundLocalError ''row''), c'')
                else (Inl (DatabaseError (UnableToAddRow (last data) table)), c''))))"

subsection \<open>The date helper\<close>

text \<open>The names bound at module level: the two imports, the three lists, the classes, the factory.\<close>

definition module_globals :: "string list" where
  "module_globals =
     [''np'', ''collections'', ''SQL_TYPES'', ''TEXT_TABLE_TYPES'', ''GOOGLE_SPREADSHEET_TYPES'',
      ''GoogleSpreadsheetInterface'', ''TextInterface'', ''MySQLDatabaseInterface'',
      ''DatabaseError'', ''DatabaseFactory'']"

text \<open>
  \<^verbatim>\<open>int(s)\<close> on a string: blanks around it are dropped, a sign may lead, decimal digits
  follow. Underscores between digits, which newer interpreters accept, are not modelled.
\<close>

definition is_digit :: "char \<Rightarrow> bool" where
  "is_digit c = (c \<in> set ''0123456789'')"

definition digit_value :: "char \<Rightarrow> int" where
  "digit_value c = int (of_char c) - 48"

definition digits_value :: "string \<Rightarrow> int" where
  "digits_value ds = foldl (\<lambda>a c. 10 * a + digit_value c) 0 ds"

definition py_int :: "string \<Rightarrow> pyexc + int" where
  "py_int s =
     (let t = py_strip [CHR '' '', TAB, NL, CHR 0x0B, CHR 0x0C, CR] s
      in if CHR ''_'' \<in> set t then Inl OutsideModel
         else
           (case t of
              [] \<Rightarrow> Inl ValueError
            | c # ds \<Rightarrow>
                (if c = CHR ''-'' \<or> c = CHR ''+''
                 then (if ds \<noteq> [] \<and> list_all is_digit ds
                       then Inr ((if c = CHR ''-'' then - 1 else 1) * digits_value ds)
                       else Inl ValueError)
                 else (if list_all is_digit t then Inr (digits_value t) else Inl ValueError))))"

text \<open>\<^verbatim>\<open>datetime.date(y, m, d)\<close> raises ValueError outside the calendar.\<close>

definition leap_year :: "int \<Rightarrow> bool" where
  "leap_year y = (y mod 4 = 0 \<and> (y mod 100 \<noteq> 0 \<or> y mod 400 = 0))"

definition days_in_month :: "int \<Rightarrow> int \<Rightarrow> int" where
  "days_in_month y m =
     (if m = 2 then (if leap_year y then 29 else 28)
      else if m = 4 \<or> m = 6 \<or> m = 9 \<or> m = 11 then 30
      else 31)"

definition datetime_date :: "int \<Rightarrow> int \<Rightarrow> int \<Rightarrow> pyexc + pyval" where
  "datetime_date y m d =
     (if 1 \<le> y \<and> y \<le> 9999 \<and> 1 \<le> m \<and> m \<le> 12 \<and> 1 \<le> d \<and> d \<le> days_in_month y m
      then Inr (Scalar (SDate y m d))
      else Inl ValueError)"

text \<open>
  One round of \<^verbatim>\<open>for seg in '/-'\<close>. \<open>date\<close> is still the string (\<open>Inl\<close>) or already the
  list a split has left (\<open>Inr\<close>); on a list \<^verbatim>\<open>count\<close> counts equal elements and
  \<^verbatim>\<open>split\<close> does not exist.
\<close>

definition datify_seg :: "string \<Rightarrow> string + string list \<Rightarrow> pyexc + (string + string list)" where
  "datify_seg seg date =
     (case date of
        Inl s \<Rightarrow> (if count_from seg s = 2 then Inr (Inr (split_from seg [] s)) else Inr (Inl s))
      | Inr xs \<Rightarrow> (if count_list xs seg = 2 then Inl AttributeError else Inr (Inr xs)))"

text \<open>\<^verbatim>\<open>int(date[i])\<close>: a character of the string or an element of the list.\<close>

definition int_at :: "string + string list \<Rightarrow> nat \<Rightarrow> pyexc + int" where
  "int_at date i =
     (case date of
        Inl s \<Rightarrow> (if i < length s then py_int [s ! i] else Inl IndexError)
      | Inr xs \<Rightarrow> (if i < length xs then py_int (xs ! i) else Inl IndexError))"

definition datify_str :: "string \<Rightarrow> pyexc + pyval" where
  "datify_str s =
     (case datify_seg ''/'' (Inl s) of
        Inl e \<Rightarrow> Inl e
      | Inr d1 \<Rightarrow>
          (case datify_seg ''-'' d1 of
             Inl e \<Rightarrow> Inl e
           | Inr d2 \<Rightarrow>
               (case int_at d2 0 of
                  Inl e \<Rightarrow> Inl e
                | Inr y \<Rightarrow>
                    (case int_at d2 1 of
                       Inl e \<Rightarrow> Inl e
                     | Inr m \<Rightarrow>
                         (case int_at d2 2 of
                            Inl e \<Rightarrow> Inl e
                          | Inr d \<Rightarrow> datetime_date y m d)))))"

text \<open>
  \<open>_datify\<close>, given the names that resolve at module level. The first condition evaluates
  \<^verbatim>\<open>Qc.QString\<close> before anything else; no value of the model is a QString or, once it is
  known to be a string, a \<^verbatim>\<open>datetime.date\<close>.
\<close>

definition datify :: "string list \<Rightarrow> pyval \<Rightarrow> pyexc + pyval" where
  "datify globals date =
     (if ''Qc'' \<notin> set globals then Inl (NameError ''Qc'')
      else
        (case date of
           Scalar (SStr s) \<Rightarrow>
             (if ''datetime'' \<notin> set globals then Inl (NameError ''datetime'')
              else datify_str s)
         | _ \<Rightarrow> Inr PNone))"

section \<open>DatabaseFactory\<close>

definition SQL_TYPES :: "string list" where
  "SQL_TYPES = [''mysql'', ''postgresql'', ''sqlite'']"

definition TEXT_TABLE_TYPES :: "string list" where
  "TEXT_TABLE_TYPES = [''excel'', ''text'', ''csv'']"

definition GOOGLE_SPREADSHEET_TYPES :: "string list" where
  "GOOGLE_SPREADSHEET_TYPES = [''google'']"

text \<open>
  A name read in the body of the factory. Its only local names are \<open>db_type\<close> and
  \<open>kwargs\<close>; any other name is looked up at module level and then among the builtins,
  where Python 2 has \<^verbatim>\<open>file\<close>, the type of file objects. The keyword arguments stay
  inside the dictionary \<open>kwargs\<close>, which the body never reads.
\<close>

definition builtin_value :: "pyver \<Rightarrow> string \<Rightarrow> pyval option" where
  "builtin_value v name =
     (if name = ''file'' \<and> v = Py2 then Some (TypeObj TFile)
      else if name = ''str'' then Some (TypeObj TStr)
      else None)"

definition lookup_name :: "pyver \<Rightarrow> string \<Rightarrow> pyexc + pyval" where
  "lookup_name v name =
     (if name \<in> set module_globals then Inl OutsideModel
      else (case builtin_value v name of None \<Rightarrow> Inl (NameError name) | Some x \<Rightarrow> Inr x))"

text \<open>
  The result is None when no branch returns. The first keyword argument of each
  constructor call is evaluated first.
\<close>

definition DatabaseFactory ::
  "pyver \<Rightarrow> string \<Rightarrow> (string \<times> pyval) list \<Rightarrow> pyexc + TextInterface option" where
  "DatabaseFactory v db_type kwargs =
     (if py_lower db_type \<in> set GOOGLE_SPREADSHEET_TYPES
      then (case lookup_name v ''title'' of Inl e \<Rightarrow> Inl e | Inr x \<Rightarrow> Inl OutsideModel)
      else if py_lower db_type \<in> set TEXT_TABLE_TYPES
      then (case lookup_name v ''file'' of
              Inl e \<Rightarrow> Inl e
            | Inr f \<Rightarrow> Inr (Some \<lparr>file_attr = f\<rparr>))
      else if py_lower db_type = ''mysql''
      then (case lookup_name v ''db'' of Inl e \<Rightarrow> Inl e | Inr x \<Rightarrow> Inl OutsideModel)
      else Inr None)"

section \<open>Environments to run the adapters on\<close>



definition refusing_driver :: "string \<Rightarrow> driver" where
  "refusing_driver bad =
     \<lparr>exec_ok = (\<lambda>c s. s \<noteq> bad), commit_ok = (\<lambda>c. True), result_rows = (\<lambda>c s. PList [])\<rparr>"

definition fresh_connection :: connection where
  "fresh_connection = \<lparr>issued = [], pending = [], committed = [], commit_calls = 0\<rparr>"

section \<open>The specification's wording\<close>

text \<open>
  Definitions that follow the words of the specification, to compare the code with:
  stripping at the end of a line only, a Row read from a line stripped that way, what
  counts as a sequence, and the escaping of one character inside a quoted literal.
\<close>

definition spec_rstrip :: "string \<Rightarrow> string \<Rightarrow> string" where
  "spec_rstrip chars s = rev (dropWhile (\<lambda>c. c \<in> set chars) (rev s))"

definition spec_read_row :: "string \<Rightarrow> string \<Rightarrow> pyval" where
  "spec_read_row sep line = PTuple (map PStr (split_from sep [] (spec_rstrip [CR, NL, TAB] line)))"


definition spec_escape_char :: "char \<Rightarrow> string" where
  "spec_escape_char c =
     (if c = DQUOTE then [DQUOTE, DQUOTE] else if c = BSLASH then [BSLASH, BSLASH] else [c])"

section \<open>Properties of the string operations\<close>

lemma read_lines_ok:
  "sep \<noteq> [] \<Longrightarrow>
   read_lines sep ls =
     Inr (map (\<lambda>line. PTuple (map PStr (split_from sep [] (py_strip [CR, NL, TAB] line)))) ls)"
  by (induction ls) (simp_all add: py_split_def)

lemma py_strip_decompose:
  "\<exists>pre post. s = pre @ py_strip cs s @ post \<and> set pre \<subseteq> set cs \<and> set post \<subseteq> set cs"
proof -
  let ?P = "\<lambda>c. c \<in> set cs"
  let ?m = "dropWhile ?P s"
  have a: "s = takeWhile ?P s @ ?m" by simp
  have b: "rev ?m = takeWhile ?P (rev ?m) @ dropWhile ?P (rev ?m)" by simp
  have "?m = rev (dropWhile ?P (rev ?m)) @ rev (takeWhile ?P (rev ?m))"
    by (metis rev_append rev_rev_ident takeWhile_dropWhile_id)
  then have c: "s = takeWhile ?P s @ py_strip cs s @ rev (takeWhile ?P (rev ?m))"
    using a by (simp add: py_strip_def)
  have d: "set (takeWhile ?P s) \<subseteq> set cs"
    using set_takeWhileD by fastforce
  have e: "set (rev (takeWhile ?P (rev ?m))) \<subseteq> set cs"
    using set_takeWhileD by fastforce
  from c d e show ?thesis by blast
qed

lemma py_strip_ends:
  assumes "py_strip cs s \<noteq> []"
  shows "hd (py_strip cs s) \<notin> set cs \<and> last (py_strip cs s) \<notin> set cs"
proof -
  let ?P = "\<lambda>c. c \<in> set cs"
  let ?m = "dropWhile ?P s"
  let ?r = "dropWhile ?P (rev ?m)"
  have r: "?r \<noteq> []" using assms by (simp add: py_strip_def)
  have "hd ?r \<notin> set cs" using r hd_dropWhile by metis
  then have l: "last (py_strip cs s) \<notin> set cs"
    using r by (simp add: py_strip_def last_rev)
  have m: "?m \<noteq> []"
  proof
    assume "?m = []"
    with r show False by (metis dropWhile.simps(1) rev.simps(1))
  qed
  have hm: "hd ?m \<notin> set cs" using m hd_dropWhile by metis
  have "?m = rev ?r @ rev (takeWhile ?P (rev ?m))"
    by (metis rev_append rev_rev_ident takeWhile_dropWhile_id)
  then have "hd ?m = hd (rev ?r)" using r by (metis hd_append2 rev_is_Nil_conv)
  then show ?thesis using hm l by (simp add: py_strip_def)
qed

lemma startswith_Cons_drop:
  "sep \<noteq> [] \<Longrightarrow> startswith (c # cs) sep \<Longrightarrow> c # cs = sep @ drop (length sep - 1) cs"
  unfolding startswith_def
  by (cases sep) (auto, metis append_take_drop_id)

lemma split_from_nonempty: "split_from sep cur s \<noteq> []"
  by (induction sep cur s rule: split_from.induct) auto

lemma py_join_Cons: "rest \<noteq> [] \<Longrightarrow> py_join sep (x # rest) = x @ sep @ py_join sep rest"
  by (cases rest) auto

lemma join_split_from:
  "sep \<noteq> [] \<Longrightarrow> py_join sep (split_from sep cur s) = cur @ s"
proof (induction sep cur s rule: split_from.induct)
  case (1 sep cur)
  then show ?case by simp
next
  case (2 sep cur c cs)
  show ?case
  proof (cases "startswith (c # cs) sep")
    case True
    have eq: "c # cs = sep @ drop (length sep - 1) cs"
      using True "2.prems" by (rule startswith_Cons_drop [rotated])
    have "split_from sep cur (c # cs) = cur # split_from sep [] (drop (length sep - 1) cs)"
      using True by simp
    then have "py_join sep (split_from sep cur (c # cs))
                 = cur @ sep @ py_join sep (split_from sep [] (drop (length sep - 1) cs))"
      by (simp only: py_join_Cons [OF split_from_nonempty])
    also have "\<dots> = cur @ sep @ drop (length sep - 1) cs"
      using "2.IH"(1) [OF True "2.prems"] by simp
    also have "\<dots> = cur @ c # cs"
      using eq by simp
    finally show ?thesis .
  next
    case False
    then show ?thesis using 2 by simp
  qed
qed

lemma replace_from_single:
  "replace_from [c] new s = concat (map (\<lambda>x. if x = c then new else [x]) s)"
  by (induction s) (auto simp: startswith_def)

lemma quoted_escapes: "quoted s = [DQUOTE] @ concat (map spec_escape_char s) @ [DQUOTE]"
proof -
  have single: "\<And>t c new. py_replace t [c] new = concat (map (\<lambda>x. if x = c then new else [x]) t)"
    by (simp only: py_replace_def replace_from_single) simp
  have "concat (map (\<lambda>x. if x = BSLASH then [BSLASH, BSLASH] else [x])
          (concat (map (\<lambda>x. if x = DQUOTE then [DQUOTE, DQUOTE] else [x]) s)))
          = concat (map spec_escape_char s)"
    by (induction s) (simp_all add: spec_escape_char_def)
  then show ?thesis by (simp only: quoted_def single)
qed

lemma concat_file_lines: "concat (lines_from cur s) = cur @ s"
  by (induction cur s rule: lines_from.induct) auto

section \<open>Properties of TextInterface\<close>

lemma suffix_separator_csv: "endswith name ''.csv'' \<Longrightarrow> suffix_separator name seperator = '',''"
  by (simp add: suffix_separator_def)

text \<open>The outcome of \<open>write\<close> does not depend on the separator, for any file name.\<close>

lemma write_text_separator_unused:
  "write_text v self writable fs data seperator = write_text v self writable fs data other"
  by (simp add: write_text_def Let_def split: pyval.splits scalar.splits sum.splits)

text \<open>
  For a file whose name ends in ".csv", whatever separator the caller gives, the
  separator in force after the suffix test is the comma, and \<open>read\<close> splits every
  stripped line on ",".
\<close>

lemma csv_read_splits_on_comma:
  assumes "endswith name ''.csv''"
  shows "suffix_separator name seperator = '',''
    \<and> read_text \<lparr>file_attr = PStr name\<rparr> fs seperator =
        (case fs name of
           None \<Rightarrow> Inl IOError
         | Some text \<Rightarrow>
             Inr (PList (map (\<lambda>line. PTuple (map PStr (split_from '','' [] (py_strip [CR, NL, TAB] line))))
                         (file_lines text))))"
  using assms by (simp add: suffix_separator_csv read_text_def read_lines_ok split: option.splits)

text \<open>
  Claim C6, on the code. With the file out.csv and the separator ";", \<open>read\<close> cuts the
  line "a;b,c" at the comma, and in \<open>write\<close> the suffix test does put the comma in
  \<open>seperator\<close>; joined with it the Rows ("a","1"), ("b","2") would give "a,1", a
  newline, "b,2". But \<open>write\<close> never reaches the join: when the file opens, the call
  ends in TypeError with the file emptied, and no separator, given or forced, is used.
\<close>

theorem csv_write_never_uses_comma:
  "suffix_separator ''out.csv'' '';'' = '',''
   \<and> read_text \<lparr>file_attr = PStr ''out.csv''\<rparr> (fs(''out.csv'' \<mapsto> ''a;b,c'')) '';''
       = Inr (PList [PTuple [PStr ''a;b'', PStr ''c'']])
   \<and> join_rows (suffix_separator ''out.csv'' '';'')
         (PList [PTuple [PStr ''a'', PStr ''1''], PTuple [PStr ''b'', PStr ''2'']])
       = Inr (''a,1'' @ [NL] @ ''b,2'')
   \<and> write_text v \<lparr>file_attr = PStr ''out.csv''\<rparr> writable fs
         (PList [PTuple [PStr ''a'', PStr ''1''], PTuple [PStr ''b'', PStr ''2'']]) '';''
       = (if writable ''out.csv'' then (Inl TypeError, fs(''out.csv'' \<mapsto> []))
          else (Inl IOError, fs))"
  by (simp add: suffix_separator_def endswith_def read_text_def file_lines_def py_split_def
      py_strip_def startswith_def join_rows_def join_entry_def write_text_def
      opens_for_writing_def)

text \<open>
  Claim C7 as stated fails: \<open>strip\<close> works on both ends of the line. The line
  <TAB>"a b"<NL> read with a blank separator gives the Row ("a", "b"), where stripping
  at the end only would give (<TAB>"a", "b").
\<close>

theorem leading_tab_counterexample:
  "read_text \<lparr>file_attr = PStr ''t.txt''\<rparr> [''t.txt'' \<mapsto> TAB # ''a b'' @ [NL]] '' ''
     = Inr (PList [PTuple [PStr ''a'', PStr ''b'']])
   \<and> spec_read_row '' '' (TAB # ''a b'' @ [NL]) = PTuple [PStr (TAB # ''a''), PStr ''b'']
   \<and> read_text \<lparr>file_attr = PStr ''t.txt''\<rparr> [''t.txt'' \<mapsto> TAB # ''a b'' @ [NL]] '' ''
     \<noteq> Inr (PList [spec_read_row '' '' (TAB # ''a b'' @ [NL])])"
  by (simp add: read_text_def file_lines_def suffix_separator_def endswith_def py_split_def
      py_strip_def startswith_def spec_read_row_def spec_rstrip_def)

text \<open>
  Claim C7, amended. For every line that \<open>read\<close> reads, the characters CR, NL and TAB
  are stripped from both ends of the line, the start as well as the end: the line is
  a run of such characters, then the stripped text, then a run of such characters, and
  the stripped text neither starts nor ends with one. The stripped text is then split
  on the (non-empty) separator into the Row, so that joining the Row's fields with the
  separator gives the stripped text back.
\<close>

theorem read_strips_both_ends_then_splits:
  assumes "fs name = Some text" and "suffix_separator name seperator = sep" and "sep \<noteq> []"
  shows "read_text \<lparr>file_attr = PStr name\<rparr> fs seperator =
           Inr (PList (map (\<lambda>line. PTuple (map PStr (split_from sep [] (py_strip [CR, NL, TAB] line))))
                       (file_lines text)))
    \<and> (\<forall>line. \<exists>pre post.
          line = pre @ py_strip [CR, NL, TAB] line @ post
          \<and> set pre \<subseteq> {CR, NL, TAB} \<and> set post \<subseteq> {CR, NL, TAB}
          \<and> (py_strip [CR, NL, TAB] line = []
               \<or> (hd (py_strip [CR, NL, TAB] line) \<notin> {CR, NL, TAB}
                   \<and> last (py_strip [CR, NL, TAB] line) \<notin> {CR, NL, TAB})))
    \<and> (\<forall>s. py_join sep (split_from sep [] s) = s)"
proof -
  have rd: "read_text \<lparr>file_attr = PStr name\<rparr> fs seperator =
           Inr (PList (map (\<lambda>line. PTuple (map PStr (split_from sep [] (py_strip [CR, NL, TAB] line))))
                       (file_lines text)))"
    using assms by (simp add: read_text_def read_lines_ok)
  have st: "\<exists>pre post.
          line = pre @ py_strip [CR, NL, TAB] line @ post
          \<and> set pre \<subseteq> {CR, NL, TAB} \<and> set post \<subseteq> {CR, NL, TAB}
          \<and> (py_strip [CR, NL, TAB] line = []
               \<or> (hd (py_strip [CR, NL, TAB] line) \<notin> {CR, NL, TAB}
                   \<and> last (py_strip [CR, NL, TAB] line) \<notin> {CR, NL, TAB}))" for line
  proof -
    obtain pre post where d: "line = pre @ py_strip [CR, NL, TAB] line @ post"
        "set pre \<subseteq> set [CR, NL, TAB]" "set post \<subseteq> set [CR, NL, TAB]"
      using py_strip_decompose [of line "[CR, NL, TAB]"] by blast
    have e: "py_strip [CR, NL, TAB] line = []
               \<or> (hd (py_strip [CR, NL, TAB] line) \<notin> set [CR, NL, TAB]
                   \<and> last (py_strip [CR, NL, TAB] line) \<notin> set [CR, NL, TAB])"
      using py_strip_ends [of "[CR, NL, TAB]" line] by blast
    have s: "set [CR, NL, TAB] = {CR, NL, TAB}" by simp
    show ?thesis using d e unfolding s by blast
  qed
  have jn: "py_join sep (split_from sep [] s) = s" for s
    using join_split_from [OF assms(3), of "[]" s] by simp
  show ?thesis using rd st jn by blast
qed

text \<open>
  The amended claim on the line of the counterexample.
\<close>

theorem read_strips_both_ends_then_splits_witness:
  "read_text \<lparr>file_attr = PStr ''t.txt''\<rparr> [''t.txt'' \<mapsto> TAB # ''a b'' @ [NL]] '' ''
     = Inr (PList [PTuple [PStr ''a'', PStr ''b'']])"
proof -
  have "[''t.txt'' \<mapsto> TAB # ''a b'' @ [NL]] ''t.txt'' = Some (TAB # ''a b'' @ [NL])" by simp
  moreover have "suffix_separator ''t.txt'' '' '' = '' ''"
    by (simp add: suffix_separator_def endswith_def)
  moreover have "'' '' \<noteq> []" by simp
  ultimately show ?thesis
    using read_strips_both_ends_then_splits [of "[''t.txt'' \<mapsto> TAB # ''a b'' @ [NL]]" "''t.txt''"
        "TAB # ''a b'' @ [NL]" "'' ''" "'' ''"]
    by (simp add: file_lines_def py_strip_def startswith_def)
qed




lemma join_rows_example:
  "join_rows '','' (PList [PTuple [PStr ''a'', PStr ''1''], PTuple [PStr ''b'', PStr ''2'']])
     = Inr (''a,1'' @ [NL] @ ''b,2'')"
  by (simp add: join_rows_def join_entry_def)

lemma read_back_example:
  "read_text \<lparr>file_attr = PStr ''out.csv''\<rparr> (fs(''out.csv'' \<mapsto> ''a,1'' @ [NL] @ ''b,2'')) seperator
     = Inr (PList [PTuple [PStr ''a'', PStr ''1''], PTuple [PStr ''b'', PStr ''2'']])"
  by (simp add: read_text_def file_lines_def suffix_separator_def endswith_def py_split_def
      py_strip_def startswith_def)

text \<open>
  Claim C1, on the code. Writing the Rows ("a","1"), ("b","2") to out.csv, when the
  file opens, ends in TypeError and leaves the file empty: the test
  \<^verbatim>\<open>type(data[0] == str)\<close> is always true, so the list itself is handed to
  \<^verbatim>\<open>outfile.write\<close>. Reading the file back gives no Rows. (When the file does not
  open, the call ends in IOError and nothing is written either.) The two lemmas before it show what the join of the other branch and a
  read of its text give, which is what the claim describes.
\<close>

theorem write_rows_to_csv_raises:
  "write_text v \<lparr>file_attr = PStr ''out.csv''\<rparr> writable fs
       (PList [PTuple [PStr ''a'', PStr ''1''], PTuple [PStr ''b'', PStr ''2'']]) seperator
     = (if writable ''out.csv'' then (Inl TypeError, fs(''out.csv'' \<mapsto> []))
        else (Inl IOError, fs))
   \<and> read_text \<lparr>file_attr = PStr ''out.csv''\<rparr> (fs(''out.csv'' \<mapsto> [])) seperator
     = Inr (PList [])"
  by (simp add: write_text_def read_text_def file_lines_def opens_for_writing_def)

text \<open>
  Claim C2, on the code. For every non-empty list or tuple, whatever its first element
  is (a string or a Row), \<open>write\<close> takes the branch that writes the payload as it is,
  and a list or tuple is not a string: once the file has opened, the call ends in
  TypeError with the file left empty. The branch that joins fields and Rows is never taken. The one payload that is
  written is a non-empty string, under Python 3; under Python 2 a string does not pass
  the assertion.
\<close>

theorem write_list_never_joins_rows:
  "write_text v \<lparr>file_attr = PStr name\<rparr> writable fs (PList (x # rest)) seperator
     = (if opens_for_writing writable name then (Inl TypeError, fs(name \<mapsto> []))
        else (Inl IOError, fs))
   \<and> write_text v \<lparr>file_attr = PStr name\<rparr> writable fs (PTuple (x # rest)) seperator
     = (if opens_for_writing writable name then (Inl TypeError, fs(name \<mapsto> []))
        else (Inl IOError, fs))
   \<and> write_text Py3 \<lparr>file_attr = PStr name\<rparr> writable fs (PStr (ch # chs)) seperator
     = (if opens_for_writing writable name then (Inr (), fs(name \<mapsto> ch # chs))
        else (Inl IOError, fs))
   \<and> write_text Py2 \<lparr>file_attr = PStr name\<rparr> writable fs (PStr (ch # chs)) seperator
     = (Inl AssertionError, fs)"
  by (simp add: write_text_def)

section \<open>Properties of MySQLDatabaseInterface\<close>

text \<open>
  Claim C5 as stated fails for the number zero: it is false as a truth value, so
  \<^verbatim>\<open>not item\<close> holds and it is emitted with quotes.
\<close>

theorem zero_is_quoted_counterexample:
  "build_insert [SInt 0] = [DQUOTE, CHR ''0'', DQUOTE] \<and> str_int 0 = ''0''
   \<and> build_insert [SInt 0] \<noteq> str_int 0"
  by (simp add: build_insert_def build_item_def quoted_def py_replace_def str_int_def
      digits.simps digit_char_def startswith_def)

text \<open>
  Claim C5, amended. The statement builder joins the emitted fields with commas. Every
  string field, and every field that is false as a truth value (None, False, the
  number zero, the empty string), is emitted as a quoted literal in which each
  double quote is doubled and each backslash is doubled; every non-zero number is
  emitted as its decimal text without quotes.
\<close>

theorem build_insert_quoting:
  "build_insert row = py_join '','' (map build_item row)
   \<and> build_item (SStr s) = [DQUOTE] @ concat (map spec_escape_char s) @ [DQUOTE]
   \<and> (\<not> scalar_truthy x \<longrightarrow>
        build_item x = [DQUOTE] @ concat (map spec_escape_char (str_scalar x)) @ [DQUOTE])
   \<and> (n \<noteq> 0 \<longrightarrow> build_item (SInt n) = str_int n)"
  by (simp add: build_insert_def build_item_def quoted_escapes)

text \<open>
  A Row with a string holding a double quote and a backslash, the number 42, None and
  the empty string.
\<close>

theorem build_insert_quoting_witness:
  "build_insert [SStr (''a'' @ [DQUOTE] @ ''b'' @ [BSLASH]), SInt 42, SNone, SStr []]
     = [DQUOTE] @ ''a'' @ [DQUOTE, DQUOTE] @ ''b'' @ [BSLASH, BSLASH] @ [DQUOTE] @ '',42,''
       @ [DQUOTE] @ ''None'' @ [DQUOTE] @ '','' @ [DQUOTE, DQUOTE]"
  using build_insert_quoting [of "[SStr (''a'' @ [DQUOTE] @ ''b'' @ [BSLASH]), SInt 42, SNone, SStr []]"
      "''a'' @ [DQUOTE] @ ''b'' @ [BSLASH]" SNone 42]
    build_insert_quoting [of "[]" "[]" SNone 42]
  by (simp add: spec_escape_char_def build_item_def str_int_def digits.simps digit_char_def)

lemma executed_Nil: "executed c [] = c"
  by (simp add: executed_def)

lemma executed_append: "executed (executed c xs) ys = executed c (xs @ ys)"
  by (simp add: executed_def)

lemma cursor_execute_ok:
  "exec_ok drv c s \<Longrightarrow> cursor_execute drv c s = (Inr (), executed c [s])"
  by (simp add: cursor_execute_def executed_def)

lemma cursor_execute_refused:
  "\<not> exec_ok drv c s \<Longrightarrow> cursor_execute drv c s = (Inl DriverError, c\<lparr>issued := issued c @ [s]\<rparr>)"
  by (simp add: cursor_execute_def)

lemma insert_rows_all_ok:
  assumes "\<forall>i<length rows.
             exec_ok drv (executed c (map (insert_statement table) (take i rows)))
               (insert_statement table (rows ! i))"
  shows "insert_rows drv table c rows = (Inr (), executed c (map (insert_statement table) rows))"
  using assms
proof (induction rows arbitrary: c)
  case Nil
  then show ?case by (simp add: executed_Nil)
next
  case (Cons row rows)
  have first: "exec_ok drv c (insert_statement table row)"
    using Cons.prems [rule_format, of 0] by (simp add: executed_Nil)
  have rest: "\<forall>i<length rows.
      exec_ok drv (executed (executed c [insert_statement table row])
                     (map (insert_statement table) (take i rows)))
        (insert_statement table (rows ! i))"
  proof (intro allI impI)
    fix i assume "i < length rows"
    then show "exec_ok drv (executed (executed c [insert_statement table row])
                     (map (insert_statement table) (take i rows)))
        (insert_statement table (rows ! i))"
      using Cons.prems [rule_format, of "Suc i"] by (simp add: executed_append)
  qed
  show ?case
    using Cons.IH [OF rest] by (simp add: cursor_execute_ok [OF first] executed_append)
qed

lemma insert_rows_refused_at:
  assumes "k < length rows"
    and "\<forall>i<k. exec_ok drv (executed c (map (insert_statement table) (take i rows)))
               (insert_statement table (rows ! i))"
    and "\<not> exec_ok drv (executed c (map (insert_statement table) (take k rows)))
               (insert_statement table (rows ! k))"
  shows "insert_rows drv table c rows =
           (Inl (rows ! k),
            c\<lparr>issued := issued c @ map (insert_statement table) (take (Suc k) rows),
              pending := pending c @ map (insert_statement table) (take k rows)\<rparr>)"
  using assms
proof (induction rows arbitrary: c k)
  case Nil
  then show ?case by simp
next
  case (Cons row rows)
  show ?case
  proof (cases k)
    case 0
    then have "\<not> exec_ok drv c (insert_statement table row)"
      using Cons.prems(3) by (simp add: executed_Nil)
    then show ?thesis
      using 0 by (simp add: cursor_execute_refused)
  next
    case (Suc j)
    have first: "exec_ok drv c (insert_statement table row)"
      using Cons.prems(2) [rule_format, of 0] Suc by (simp add: executed_Nil)
    let ?c = "executed c [insert_statement table row]"
    have j: "j < length rows" using Cons.prems(1) Suc by simp
    have before: "\<forall>i<j. exec_ok drv (executed ?c (map (insert_statement table) (take i rows)))
               (insert_statement table (rows ! i))"
    proof (intro allI impI)
      fix i assume "i < j"
      then show "exec_ok drv (executed ?c (map (insert_statement table) (take i rows)))
               (insert_statement table (rows ! i))"
        using Cons.prems(2) [rule_format, of "Suc i"] Suc by (simp add: executed_append)
    qed
    have at: "\<not> exec_ok drv (executed ?c (map (insert_statement table) (take j rows)))
               (insert_statement table (rows ! j))"
      using Cons.prems(3) Suc by (simp add: executed_append)
    show ?thesis
      using Cons.IH [OF j before at] Suc
      by (simp add: cursor_execute_ok [OF first] executed_def)
  qed
qed

lemma insert_rows_commit_calls:
  "commit_calls (snd (insert_rows drv table c rows)) = commit_calls c
   \<and> committed (snd (insert_rows drv table c rows)) = committed c"
  by (induction rows arbitrary: c) (auto simp: cursor_execute_def split: prod.splits sum.splits)

text \<open>
  Claim C4 as stated fails: the only commit of \<open>insert\<close> stands behind the loop. With
  two Rows of which the driver refuses the second, the call ends in DatabaseError
  naming that Row and the table, the first statement stays pending, and no Row is
  committed, where the claim has one.
\<close>

theorem insert_second_row_refused_counterexample:
  "insert_sql (refusing_driver (insert_statement ''t'' [SInt 2])) fresh_connection ''t''
       [[SInt 1], [SInt 2]]
     = (Inl (DatabaseError (UnableToAddRow [SInt 2] ''t'')),
        \<lparr>issued = [''INSERT INTO t VALUES ( 1 )'', ''INSERT INTO t VALUES ( 2 )''],
         pending = [''INSERT INTO t VALUES ( 1 )''], committed = [], commit_calls = 0\<rparr>)
   \<and> length (committed (snd (insert_sql (refusing_driver (insert_statement ''t'' [SInt 2]))
         fresh_connection ''t'' [[SInt 1], [SInt 2]]))) \<noteq> 2 - 1"
  by (simp add: insert_sql_def cursor_execute_def refusing_driver_def fresh_connection_def
      insert_statement_def build_insert_def build_item_def str_int_def digits.simps
      digit_char_def)

text \<open>
  Claim C4, amended. For \<open>insert(table, rows)\<close> with N Rows: when the driver accepts
  every statement, exactly the N INSERT statements of the Rows are issued, in order,
  and \<^verbatim>\<open>commit\<close> is called exactly once (when it succeeds, everything pending is
  committed). When the driver refuses the statement of the Row at index \<open>k\<close> (counted
  from 0) after accepting those before it, the call fails with DatabaseError naming that
  Row and the table; the \<open>k\<close> earlier statements have been executed and stay pending,
  and nothing is committed: \<^verbatim>\<open>commit\<close> is not called and there is no rollback.
\<close>

theorem insert_one_commit_or_none:
  "((\<forall>i<length rows.
       exec_ok drv (executed c (map (insert_statement table) (take i rows)))
         (insert_statement table (rows ! i)))
     \<longrightarrow> issued (snd (insert_sql drv c table rows)) = issued c @ map (insert_statement table) rows
         \<and> commit_calls (snd (insert_sql drv c table rows)) = Suc (commit_calls c)
         \<and> (commit_ok drv (executed c (map (insert_statement table) rows))
              \<longrightarrow> insert_sql drv c table rows =
                    (Inr (),
                     \<lparr>issued = issued c @ map (insert_statement table) rows,
                      pending = [],
                      committed = committed c @ pending c @ map (insert_statement table) rows,
                      commit_calls = Suc (commit_calls c)\<rparr>)))
   \<and> (k < length rows
       \<and> (\<forall>i<k. exec_ok drv (executed c (map (insert_statement table) (take i rows)))
                  (insert_statement table (rows ! i)))
       \<and> \<not> exec_ok drv (executed c (map (insert_statement table) (take k rows)))
               (insert_statement table (rows ! k))
     \<longrightarrow> insert_sql drv c table rows =
           (Inl (DatabaseError (UnableToAddRow (rows ! k) table)),
            \<lparr>issued = issued c @ map (insert_statement table) (take (Suc k) rows),
             pending = pending c @ map (insert_statement table) (take k rows),
             committed = committed c,
             commit_calls = commit_calls c\<rparr>))"
proof (intro conjI impI)
  assume ok: "\<forall>i<length rows.
       exec_ok drv (executed c (map (insert_statement table) (take i rows)))
         (insert_statement table (rows ! i))"
  note loop = insert_rows_all_ok [OF ok]
  show "issued (snd (insert_sql drv c table rows)) = issued c @ map (insert_statement table) rows"
    by (simp add: insert_sql_def loop db_commit_def executed_def)
  show "commit_calls (snd (insert_sql drv c table rows)) = Suc (commit_calls c)"
    by (simp add: insert_sql_def loop db_commit_def executed_def)
  assume "commit_ok drv (executed c (map (insert_statement table) rows))"
  then show "insert_sql drv c table rows =
                    (Inr (),
                     \<lparr>issued = issued c @ map (insert_statement table) rows,
                      pending = [],
                      committed = committed c @ pending c @ map (insert_statement table) rows,
                      commit_calls = Suc (commit_calls c)\<rparr>)"
    by (simp add: insert_sql_def loop db_commit_def executed_def)
next
  assume "k < length rows
       \<and> (\<forall>i<k. exec_ok drv (executed c (map (insert_statement table) (take i rows)))
                  (insert_statement table (rows ! i)))
       \<and> \<not> exec_ok drv (executed c (map (insert_statement table) (take k rows)))
               (insert_statement table (rows ! k))"
  then have "insert_rows drv table c rows =
           (Inl (rows ! k),
            c\<lparr>issued := issued c @ map (insert_statement table) (take (Suc k) rows),
              pending := pending c @ map (insert_statement table) (take k rows)\<rparr>)"
    using insert_rows_refused_at [of k rows drv c table] by blast
  then show "insert_sql drv c table rows =
           (Inl (DatabaseError (UnableToAddRow (rows ! k) table)),
            \<lparr>issued = issued c @ map (insert_statement table) (take (Suc k) rows),
             pending = pending c @ map (insert_statement table) (take k rows),
             committed = committed c,
             commit_calls = commit_calls c\<rparr>)"
    by (simp add: insert_sql_def)
qed

text \<open>
  Two accepted Rows, and three Rows of which the second is refused.
\<close>

theorem insert_one_commit_or_none_witness:
  "insert_sql (refusing_driver ''x'') fresh_connection ''t'' [[SInt 1], [SStr ''a'']]
     = (Inr (),
        \<lparr>issued = [''INSERT INTO t VALUES ( 1 )'', ''INSERT INTO t VALUES ( '' @ [DQUOTE] @ ''a'' @ [DQUOTE] @ '' )''],
         pending = [],
         committed = [''INSERT INTO t VALUES ( 1 )'', ''INSERT INTO t VALUES ( '' @ [DQUOTE] @ ''a'' @ [DQUOTE] @ '' )''],
         commit_calls = 1\<rparr>)
   \<and> insert_sql (refusing_driver (insert_statement ''t'' [SInt 2])) fresh_connection ''t''
       [[SInt 1], [SInt 2], [SInt 3]]
     = (Inl (DatabaseError (UnableToAddRow [SInt 2] ''t'')),
        \<lparr>issued = [''INSERT INTO t VALUES ( 1 )'', ''INSERT INTO t VALUES ( 2 )''],
         pending = [''INSERT INTO t VALUES ( 1 )''], committed = [], commit_calls = 0\<rparr>)"
proof -
  let ?d1 = "refusing_driver ''x''"
  let ?r1 = "[[SInt 1], [SStr ''a'']]"
  let ?d2 = "refusing_driver (insert_statement ''t'' [SInt 2])"
  let ?r2 = "[[SInt 1], [SInt 2], [SInt 3]]"
  have st1: "insert_statement ''t'' [SInt 1] = ''INSERT INTO t VALUES ( 1 )''"
    and st2: "insert_statement ''t'' [SInt 2] = ''INSERT INTO t VALUES ( 2 )''"
    and sta: "insert_statement ''t'' [SStr ''a''] =
        ''INSERT INTO t VALUES ( '' @ [DQUOTE] @ ''a'' @ [DQUOTE] @ '' )''"
    by (simp_all add: insert_statement_def build_insert_def build_item_def str_int_def
        digits.simps digit_char_def quoted_def py_replace_def startswith_def)
  have a: "\<forall>i<length ?r1.
       exec_ok ?d1 (executed fresh_connection (map (insert_statement ''t'') (take i ?r1)))
         (insert_statement ''t'' (?r1 ! i))"
    by (auto simp: refusing_driver_def less_Suc_eq st1 sta)
  have b: "commit_ok ?d1 (executed fresh_connection (map (insert_statement ''t'') ?r1))"
    by (simp add: refusing_driver_def)
  have c: "(1::nat) < length ?r2
       \<and> (\<forall>i<1. exec_ok ?d2 (executed fresh_connection (map (insert_statement ''t'') (take i ?r2)))
                  (insert_statement ''t'' (?r2 ! i)))
       \<and> \<not> exec_ok ?d2 (executed fresh_connection (map (insert_statement ''t'') (take 1 ?r2)))
               (insert_statement ''t'' (?r2 ! 1))"
    by (simp add: refusing_driver_def st1 st2)
  show ?thesis
    using a b c
      insert_one_commit_or_none [of ?r1 ?d1 fresh_connection "''t''" 0]
      insert_one_commit_or_none [of ?r2 ?d2 fresh_connection "''t''" 1]
    by (simp add: fresh_connection_def st1 st2 sta)
qed

text \<open>
  Claim C10. For every statement, \<open>read\<close> hands the statement to the cursor and returns
  the rows fetched (or fails with DatabaseError), and never calls \<^verbatim>\<open>commit\<close>: the
  committed statements and the number of commits are as before, and only the statement
  itself is added to what was issued and, when the driver accepts it, to what is
  pending. A commit comes from \<open>execute\<close>, exactly when its statement is accepted, and
  from \<open>insert\<close>, exactly when its loop runs to the end.
\<close>

theorem read_sql_never_commits:
  "committed (snd (read_sql drv c statement)) = committed c
   \<and> commit_calls (snd (read_sql drv c statement)) = commit_calls c
   \<and> issued (snd (read_sql drv c statement)) = issued c @ [statement]
   \<and> pending (snd (read_sql drv c statement)) =
       (if exec_ok drv c statement then pending c @ [statement] else pending c)
   \<and> fst (read_sql drv c statement) =
       (if exec_ok drv c statement then Inr (result_rows drv (executed c [statement]) statement)
        else Inl (DatabaseError (UnableToExecute statement)))
   \<and> commit_calls (snd (execute drv c statement)) =
       (if exec_ok drv c statement then Suc (commit_calls c) else commit_calls c)
   \<and> commit_calls (snd (insert_sql drv c table rows)) =
       (if fst (insert_rows drv table c rows) = Inr () then Suc (commit_calls c)
        else commit_calls c)"
proof -
  have r: "committed (snd (read_sql drv c statement)) = committed c
   \<and> commit_calls (snd (read_sql drv c statement)) = commit_calls c
   \<and> issued (snd (read_sql drv c statement)) = issued c @ [statement]
   \<and> pending (snd (read_sql drv c statement)) =
       (if exec_ok drv c statement then pending c @ [statement] else pending c)
   \<and> fst (read_sql drv c statement) =
       (if exec_ok drv c statement then Inr (result_rows drv (executed c [statement]) statement)
        else Inl (DatabaseError (UnableToExecute statement)))"
    by (simp add: read_sql_def cursor_execute_def executed_def)
  have e: "commit_calls (snd (execute drv c statement)) =
       (if exec_ok drv c statement then Suc (commit_calls c) else commit_calls c)"
    by (simp add: execute_def cursor_execute_def db_commit_def)
  have i: "commit_calls (snd (insert_sql drv c table rows)) =
       (if fst (insert_rows drv table c rows) = Inr () then Suc (commit_calls c)
        else commit_calls c)"
    using insert_rows_commit_calls [of drv table c rows]
    by (cases "insert_rows drv table c rows")
       (auto simp: insert_sql_def db_commit_def split: sum.splits prod.splits)
  show ?thesis using r e i by simp
qed

text \<open>
  Claim C9, on the code. The module binds neither \<^verbatim>\<open>Qc\<close> nor \<^verbatim>\<open>datetime\<close>, and the
  first condition of the helper evaluates \<^verbatim>\<open>Qc.QString\<close>: every call, with a
  date-like string or with anything else, ends in NameError.
\<close>

theorem datify_raises_NameError:
  "datify module_globals date = Inl (NameError ''Qc'')"
  by (simp add: datify_def module_globals_def)

text \<open>
  With both names bound the helper does as the claim says on date-like strings and on
  values that are not strings; a string that is not date-like raises or, when it has
  three leading digits, gives a date built from them.
\<close>

lemma datify_with_imports_examples:
  "datify (''Qc'' # ''datetime'' # module_globals) (PStr ''2020-01-02'') = Inr (Scalar (SDate 2020 1 2))"
  "datify (''Qc'' # ''datetime'' # module_globals) (PStr ''3/4/2021'') = Inl ValueError"
  "datify (''Qc'' # ''datetime'' # module_globals) (PStr ''2021/3/4'') = Inr (Scalar (SDate 2021 3 4))"
  "datify (''Qc'' # ''datetime'' # module_globals) (PInt 5) = Inr PNone"
  "datify (''Qc'' # ''datetime'' # module_globals) (PStr ''hello'') = Inl ValueError"
  "datify (''Qc'' # ''datetime'' # module_globals) (PStr ''123'') = Inr (Scalar (SDate 1 2 3))"
  by (simp_all add: datify_def datify_str_def datify_seg_def int_at_def py_int_def py_strip_def
      startswith_def is_digit_def digits_value_def digit_value_def datetime_date_def
      days_in_month_def leap_year_def)

section \<open>Properties of DatabaseFactory\<close>

text \<open>
  Claim C3, on the code. The factory matches the tag without regard to case, but it
  passes the name \<^verbatim>\<open>file\<close> of its own scope, not the keyword argument of that name:
  under Python 2 the adapter is bound to the builtin type \<^verbatim>\<open>file\<close>, so that its
  \<open>read\<close> and \<open>write\<close> end in TypeError when they open it; under Python 3 the factory
  ends in NameError. In neither case is the adapter bound to "data.csv".
\<close>

theorem factory_csv_ignores_file_argument:
  "DatabaseFactory Py2 ''csv'' [(''file'', PStr ''data.csv'')]
     = Inr (Some \<lparr>file_attr = TypeObj TFile\<rparr>)
   \<and> DatabaseFactory Py3 ''csv'' [(''file'', PStr ''data.csv'')] = Inl (NameError ''file'')
   \<and> DatabaseFactory v ''csv'' [(''file'', PStr ''data.csv'')]
       \<noteq> Inr (Some \<lparr>file_attr = PStr ''data.csv''\<rparr>)
   \<and> read_text \<lparr>file_attr = TypeObj TFile\<rparr> fs seperator = Inl TypeError
   \<and> write_text v \<lparr>file_attr = TypeObj TFile\<rparr> writable fs (PList rows) seperator
       = (Inl TypeError, fs)
   \<and> DatabaseFactory v ''CSV'' kwargs = DatabaseFactory v ''csv'' kwargs"
  by (cases v)
     (simp_all add: DatabaseFactory_def py_lower_def lower_char_def TEXT_TABLE_TYPES_def
       GOOGLE_SPREADSHEET_TYPES_def lookup_name_def builtin_value_def module_globals_def
       read_text_def write_text_def)

end
